theory Spec2Isabelle
  imports Main "HOL-Library.Multiset"
begin

section \<open>Data model (app/models.py)\<close>

text \<open>
  \<^verbatim>\<open>class StaffingStatus(str, Enum)\<close>: three members, each with its text value. The
  \<^verbatim>\<open>people\<close> table stores the value text (\<^verbatim>\<open>person_data.staffing_status.value\<close>) under a
  CHECK constraint that admits these three texts only.
\<close>

datatype StaffingStatus = STAFFED | BENCH | AVAILABLE

fun StaffingStatus_value :: "StaffingStatus \<Rightarrow> string" where
  "StaffingStatus_value STAFFED = ''staffed''"
| "StaffingStatus_value BENCH = ''bench''"
| "StaffingStatus_value AVAILABLE = ''available''"

text \<open>
  A timestamp. The routers write \<^verbatim>\<open>datetime.now().isoformat()\<close> into the TIMESTAMP
  columns and read it back with \<^verbatim>\<open>datetime.fromisoformat\<close>; the text of a naive datetime
  orders as the datetime does, so one linearly ordered value (a count of microseconds)
  stands for both.
\<close>

type_synonym datetime = int

text \<open>
  \<^verbatim>\<open>class PersonBase(BaseModel)\<close> and \<^verbatim>\<open>class Person(PersonBase)\<close>. The field \<^verbatim>\<open>id\<close> is
  named \<open>person_id\<close> here (\<open>id\<close> is the identity function of HOL).
  \<^verbatim>\<open>class PersonCreate(PersonBase): pass\<close> is \<open>PersonBase\<close> itself.
\<close>

record PersonBase =
  name :: string
  role :: string
  department :: string
  staffing_status :: StaffingStatus

record Person = PersonBase +
  person_id :: int
  created_at :: datetime
  updated_at :: datetime

section \<open>Storage (app/database.py and the SQL statements of the handlers)\<close>

text \<open>
  The table \<^verbatim>\<open>people\<close>: its rows in rowid order, each row written as the \<open>Person\<close> that
  the handlers build from it (\<^verbatim>\<open>Person(id=row['id'], name=row['name'], ...)\<close>), and the
  counter that \<^verbatim>\<open>INTEGER PRIMARY KEY AUTOINCREMENT\<close> keeps in \<^verbatim>\<open>sqlite_sequence\<close>.
\<close>

record database =
  people :: "Person list"
  sqlite_sequence :: int

text \<open>\<^verbatim>\<open>SELECT ... FROM people WHERE id = ?\<close> and \<^verbatim>\<open>cursor.fetchone()\<close>.\<close>

definition select_where_id :: "database \<Rightarrow> int \<Rightarrow> Person list" where
  "select_where_id db pid = filter (\<lambda>row. person_id row = pid) (people db)"

fun fetchone :: "'a list \<Rightarrow> 'a option" where
  "fetchone [] = None"
| "fetchone (row # rest) = Some row"

text \<open>
  \<^verbatim>\<open>ORDER BY created_at DESC\<close>: rows with the later \<open>created_at\<close> first; rows with equal
  \<open>created_at\<close> keep the order in which the scan delivers them.
\<close>

fun insert_desc :: "Person \<Rightarrow> Person list \<Rightarrow> Person list" where
  "insert_desc p [] = [p]"
| "insert_desc p (q # qs) =
     (if created_at q \<le> created_at p then p # q # qs else q # insert_desc p qs)"

fun order_by_created_at_desc :: "Person list \<Rightarrow> Person list" where
  "order_by_created_at_desc [] = []"
| "order_by_created_at_desc (p # ps) = insert_desc p (order_by_created_at_desc ps)"

text \<open>\<^verbatim>\<open>WHERE staffing_status IN ('bench', 'available')\<close>, on the stored value text.\<close>

definition on_beach :: "Person \<Rightarrow> bool" where
  "on_beach row = (StaffingStatus_value (staffing_status row) \<in> set [''bench'', ''available''])"

section \<open>Service layer (app/services.py)\<close>

text \<open>\<^verbatim>\<open>PeopleService.get_all_people\<close>: \<^verbatim>\<open>SELECT * FROM people ORDER BY created_at DESC\<close>.\<close>

definition PeopleService_get_all_people :: "database \<Rightarrow> Person list" where
  "PeopleService_get_all_people db = order_by_created_at_desc (people db)"

text \<open>
  The table has the index \<^verbatim>\<open>idx_people_staffing_status\<close> (\<^verbatim>\<open>init_database\<close>), and a query
  with \<^verbatim>\<open>WHERE staffing_status IN (...)\<close> reads the table through it: the values of the
  list are visited in ascending order, the rows of one value in rowid order.
\<close>

definition idx_people_staffing_status :: "string list \<Rightarrow> Person list \<Rightarrow> Person list" where
  "idx_people_staffing_status vs rows =
     concat (map (\<lambda>v. filter (\<lambda>row. StaffingStatus_value (staffing_status row) = v) rows) vs)"

text \<open>
  \<^verbatim>\<open>BeachService.get_people_on_beach\<close>:
  \<^verbatim>\<open>SELECT * FROM people WHERE staffing_status IN ('bench', 'available') ORDER BY created_at DESC\<close>.
  The rows come from the index, \<^verbatim>\<open>'available'\<close> before \<^verbatim>\<open>'bench'\<close>, and are then ordered:
  rows of equal \<open>created_at\<close> stay in index order, which is not the table order that
  \<^verbatim>\<open>get_all_people\<close> keeps them in.
\<close>

definition BeachService_get_people_on_beach :: "database \<Rightarrow> Person list" where
  "BeachService_get_people_on_beach db =
     order_by_created_at_desc
       (idx_people_staffing_status [''available'', ''bench''] (people db))"

text \<open>
  \<^verbatim>\<open>BeachService.get_beach_count\<close>:
  \<^verbatim>\<open>SELECT COUNT(*) as count FROM people WHERE staffing_status IN ('bench', 'available')\<close>;
  the query always yields its one row, so \<^verbatim>\<open>row['count'] if row else 0\<close> is the count.
\<close>

definition BeachService_get_beach_count :: "database \<Rightarrow> int" where
  "BeachService_get_beach_count db = int (length (filter on_beach (people db)))"

text \<open>
  \<^verbatim>\<open>PeopleService.get_person_by_id\<close>: the row as a \<open>Person\<close>, or \<^verbatim>\<open>None\<close>.
\<close>

definition PeopleService_get_person_by_id :: "database \<Rightarrow> int \<Rightarrow> Person option" where
  "PeopleService_get_person_by_id db pid = fetchone (select_where_id db pid)"

section \<open>Request validation (app/models.py)\<close>

text \<open>
  A failure of a handler: \<^verbatim>\<open>HTTPException(status_code=...)\<close>, or the \<^verbatim>\<open>ValidationError\<close> that
  pydantic raises when a request body does not satisfy its model (the framework answers
  the request itself and never calls the handler).
\<close>

datatype error = ValidationError | HTTPException nat

text \<open>
  \<^verbatim>\<open>str.isspace\<close> of one character and \<^verbatim>\<open>str.strip()\<close>. A \<open>char\<close> stands for one character
  of the text (a code point below 256); the white space among these is U+0009 to U+000D,
  U+001C to U+0020, U+0085 and U+00A0.
\<close>

definition isspace :: "char \<Rightarrow> bool" where
  "isspace c =
     (let n = (of_char c :: nat)
      in (9 \<le> n \<and> n \<le> 13) \<or> (28 \<le> n \<and> n \<le> 32) \<or> n = 133 \<or> n = 160)"

definition strip :: "string \<Rightarrow> string" where
  "strip v = rev (dropWhile isspace (rev (dropWhile isspace v)))"

text \<open>
  \<^verbatim>\<open>@validator('name', 'role', 'department') def validate_text_fields(cls, v)\<close> of
  \<^verbatim>\<open>PersonBase\<close>: \<^verbatim>\<open>if not v or not v.strip(): raise ValueError(...)\<close>, then
  \<^verbatim>\<open>return v.strip()\<close>.
\<close>

definition validate_text_fields :: "string \<Rightarrow> error + string" where
  "validate_text_fields v =
     (if v = [] \<or> strip v = [] then Inl ValidationError else Inr (strip v))"

text \<open>
  A field declared \<^verbatim>\<open>str = Field(..., min_length=1, max_length=100)\<close>: the length
  bounds are checked on the text as received, then the validator above runs.
\<close>

definition text_field :: "string \<Rightarrow> error + string" where
  "text_field v =
     (if length v < 1 \<or> 100 < length v then Inl ValidationError
      else validate_text_fields v)"

text \<open>A field declared \<^verbatim>\<open>StaffingStatus\<close>: the text must be the value of a member.\<close>

definition StaffingStatus_of :: "string \<Rightarrow> error + StaffingStatus" where
  "StaffingStatus_of v =
     (if v = StaffingStatus_value STAFFED then Inr STAFFED
      else if v = StaffingStatus_value BENCH then Inr BENCH
      else if v = StaffingStatus_value AVAILABLE then Inr AVAILABLE
      else Inl ValidationError)"

text \<open>
  \<^verbatim>\<open>PersonCreate(name=..., role=..., department=..., staffing_status=...)\<close>: every field
  is validated, and one \<^verbatim>\<open>ValidationError\<close> is raised when any of them fails.
\<close>

definition PersonCreate :: "string \<Rightarrow> string \<Rightarrow> string \<Rightarrow> string \<Rightarrow> error + PersonBase" where
  "PersonCreate n r d s =
     (case (text_field n, text_field r, text_field d, StaffingStatus_of s) of
        (Inr n', Inr r', Inr d', Inr s') \<Rightarrow>
          Inr \<lparr>name = n', role = r', department = d', staffing_status = s'\<rparr>
      | _ \<Rightarrow> Inl ValidationError)"

text \<open>
  \<^verbatim>\<open>class PersonUpdate(BaseModel)\<close>, every field \<^verbatim>\<open>Optional\<close> with default \<^verbatim>\<open>None\<close>. The
  fields carry the prefix \<open>upd_\<close> to keep them apart from those of \<open>PersonBase\<close>. The
  handlers below receive the body already validated.
\<close>

record PersonUpdate =
  upd_name :: "string option"
  upd_role :: "string option"
  upd_department :: "string option"
  upd_staffing_status :: "StaffingStatus option"

section \<open>SQL statements that write\<close>

text \<open>
  \<^verbatim>\<open>INSERT INTO people (name, role, department, staffing_status, created_at, updated_at)
  VALUES (?, ?, ?, ?, ?, ?)\<close>. With AUTOINCREMENT the new rowid is one more than the largest
  rowid the table holds or has ever held; the result carries \<^verbatim>\<open>cursor.lastrowid\<close>.
\<close>

definition next_rowid :: "database \<Rightarrow> int" where
  "next_rowid db = fold max (map person_id (people db)) (sqlite_sequence db) + 1"

definition insert_into_people ::
  "database \<Rightarrow> string \<Rightarrow> string \<Rightarrow> string \<Rightarrow> StaffingStatus \<Rightarrow> datetime \<Rightarrow> datetime
   \<Rightarrow> database \<times> int" where
  "insert_into_people db n r d s c u =
     (let lastrowid = next_rowid db;
          row = \<lparr>name = n, role = r, department = d, staffing_status = s,
                 person_id = lastrowid, created_at = c, updated_at = u\<rparr>
      in (\<lparr>people = people db @ [row], sqlite_sequence = lastrowid\<rparr>, lastrowid))"

text \<open>
  \<^verbatim>\<open>UPDATE people SET <update_fields> WHERE id = ?\<close>: the handlers build the list of
  assignments (\<^verbatim>\<open>"name = ?"\<close> with its value, and so on) and the statement applies them,
  in order, to every row with that id.
\<close>

datatype assignment =
  Set_name string
| Set_role string
| Set_department string
| Set_staffing_status StaffingStatus
| Set_updated_at datetime

fun assign :: "assignment \<Rightarrow> Person \<Rightarrow> Person" where
  "assign (Set_name v) row = row\<lparr>name := v\<rparr>"
| "assign (Set_role v) row = row\<lparr>role := v\<rparr>"
| "assign (Set_department v) row = row\<lparr>department := v\<rparr>"
| "assign (Set_staffing_status v) row = row\<lparr>staffing_status := v\<rparr>"
| "assign (Set_updated_at v) row = row\<lparr>updated_at := v\<rparr>"

definition update_people :: "database \<Rightarrow> assignment list \<Rightarrow> int \<Rightarrow> database" where
  "update_people db sets pid =
     db\<lparr>people := map (\<lambda>row. if person_id row = pid then fold assign sets row else row)
                      (people db)\<rparr>"

text \<open>\<^verbatim>\<open>DELETE FROM people WHERE id = ?\<close>.\<close>

definition delete_from_people :: "database \<Rightarrow> int \<Rightarrow> database" where
  "delete_from_people db pid =
     db\<lparr>people := filter (\<lambda>row. person_id row \<noteq> pid) (people db)\<rparr>"

text \<open>
  The assignments \<^verbatim>\<open>update_person\<close> collects from the fields of the body that are not
  \<^verbatim>\<open>None\<close>, in the order name, role, department, staffing_status.
\<close>

definition update_fields :: "PersonUpdate \<Rightarrow> assignment list" where
  "update_fields person_data =
     (case upd_name person_data of None \<Rightarrow> [] | Some v \<Rightarrow> [Set_name v]) @
     (case upd_role person_data of None \<Rightarrow> [] | Some v \<Rightarrow> [Set_role v]) @
     (case upd_department person_data of None \<Rightarrow> [] | Some v \<Rightarrow> [Set_department v]) @
     (case upd_staffing_status person_data of None \<Rightarrow> [] | Some v \<Rightarrow> [Set_staffing_status v])"

section \<open>People endpoints (app/routers/people.py)\<close>

text \<open>
  Each handler takes the database and returns it with the outcome: the \<open>Person\<close> of the
  response (the envelope \<^verbatim>\<open>PersonResponse(success=True, message=..., person=...)\<close> adds
  nothing to it) or the \<^verbatim>\<open>HTTPException\<close> raised. \<open>current_time\<close> is what
  \<^verbatim>\<open>datetime.now()\<close> returns in that call.
\<close>

text \<open>
  \<^verbatim>\<open>person_id: int\<close> of the path is any integer, and SQLite stores signed 64-bit ones:
  \<^verbatim>\<open>db.execute\<close> raises \<^verbatim>\<open>OverflowError\<close> when it binds an integer outside that range.
  In the three handlers below this happens at their first statement, inside \<^verbatim>\<open>try\<close>, and
  \<^verbatim>\<open>except Exception\<close> answers 500 (after a rollback with nothing to undo).
\<close>

definition sqlite_integer :: "int \<Rightarrow> bool" where
  "sqlite_integer n = (- (2 ^ 63) \<le> n \<and> n < 2 ^ 63)"

text \<open>\<^verbatim>\<open>GET /people/{person_id}\<close>.\<close>

definition get_person_by_id :: "database \<Rightarrow> int \<Rightarrow> error + Person" where
  "get_person_by_id db pid =
     (if \<not> sqlite_integer pid then Inl (HTTPException 500)
      else
        case fetchone (select_where_id db pid) of
          None \<Rightarrow> Inl (HTTPException 404)
        | Some row \<Rightarrow> Inr row)"

text \<open>
  \<^verbatim>\<open>POST /people\<close>, the handler: one \<^verbatim>\<open>current_time\<close> for both timestamps, the insert and
  commit, then the row is read back by \<^verbatim>\<open>cursor.lastrowid\<close>; a missing row is answered 500
  (after the commit).
\<close>

definition create_person :: "database \<Rightarrow> datetime \<Rightarrow> PersonBase \<Rightarrow> database \<times> (error + Person)" where
  "create_person db current_time person_data =
     (let (db', lastrowid) =
            insert_into_people db (name person_data) (role person_data)
              (department person_data) (staffing_status person_data)
              current_time current_time
      in case fetchone (select_where_id db' lastrowid) of
           None \<Rightarrow> (db', Inl (HTTPException 500))
         | Some row \<Rightarrow> (db', Inr row))"

text \<open>
  \<^verbatim>\<open>POST /people\<close>, the request: the body is parsed into \<^verbatim>\<open>PersonCreate\<close> first, and the
  handler runs only when that succeeds.
\<close>

definition POST_people ::
  "database \<Rightarrow> datetime \<Rightarrow> string \<Rightarrow> string \<Rightarrow> string \<Rightarrow> string \<Rightarrow> database \<times> (error + Person)" where
  "POST_people db current_time n r d s =
     (case PersonCreate n r d s of
        Inl e \<Rightarrow> (db, Inl e)
      | Inr person_data \<Rightarrow> create_person db current_time person_data)"

text \<open>
  \<^verbatim>\<open>PUT /people/{person_id}\<close>: the existence check, the assignments, the check that
  there is at least one, then \<^verbatim>\<open>updated_at\<close> is appended, the statement runs and the row
  is read back (a missing row there ends in the handler's 500).
\<close>

definition update_person ::
  "database \<Rightarrow> datetime \<Rightarrow> int \<Rightarrow> PersonUpdate \<Rightarrow> database \<times> (error + Person)" where
  "update_person db current_time pid person_data =
     (if \<not> sqlite_integer pid then (db, Inl (HTTPException 500))
      else if fetchone (select_where_id db pid) = None then (db, Inl (HTTPException 404))
      else if update_fields person_data = [] then (db, Inl (HTTPException 400))
      else
        let db' = update_people db (update_fields person_data @ [Set_updated_at current_time]) pid
        in case fetchone (select_where_id db' pid) of
             None \<Rightarrow> (db', Inl (HTTPException 500))
           | Some row \<Rightarrow> (db', Inr row))"

text \<open>
  \<^verbatim>\<open>DELETE /people/{person_id}\<close>: the row is read first and returned after the delete.
\<close>

definition delete_person :: "database \<Rightarrow> int \<Rightarrow> database \<times> (error + Person)" where
  "delete_person db pid =
     (if \<not> sqlite_integer pid then (db, Inl (HTTPException 500))
      else
        case fetchone (select_where_id db pid) of
          None \<Rightarrow> (db, Inl (HTTPException 404))
        | Some row \<Rightarrow> (delete_from_people db pid, Inr row))"

section \<open>The other create (app/services.py)\<close>

text \<open>
  \<^verbatim>\<open>PeopleService.create_person\<close> passes \<^verbatim>\<open>datetime.utcnow()\<close> twice, once for
  \<^verbatim>\<open>created_at\<close> and once for \<^verbatim>\<open>updated_at\<close>: two readings of the clock, \<open>t1\<close> then \<open>t2\<close>.
\<close>

definition PeopleService_create_person ::
  "database \<Rightarrow> datetime \<Rightarrow> datetime \<Rightarrow> PersonBase \<Rightarrow> database \<times> Person option" where
  "PeopleService_create_person db t1 t2 person_data =
     (let (db', person_id) =
            insert_into_people db (name person_data) (role person_data)
              (department person_data) (staffing_status person_data) t1 t2
      in (db', PeopleService_get_person_by_id db' person_id))"

section \<open>Documents endpoints (app/routers/documents.py)\<close>

text \<open>\<^verbatim>\<open>sub in s\<close> on texts, \<^verbatim>\<open>str.rfind\<close> of one character, and \<^verbatim>\<open>str.lower()\<close>.\<close>

fun contains :: "string \<Rightarrow> string \<Rightarrow> bool" where
  "contains sub [] = (sub = [])"
| "contains sub (c # cs) = (take (length sub) (c # cs) = sub \<or> contains sub cs)"

fun rfind :: "char \<Rightarrow> string \<Rightarrow> int" where
  "rfind c [] = - 1"
| "rfind c (x # xs) =
     (let i = rfind c xs in if 0 \<le> i then i + 1 else if x = c then 0 else - 1)"

definition lower_char :: "char \<Rightarrow> char" where
  "lower_char c =
     (let n = (of_char c :: nat)
      in if (65 \<le> n \<and> n \<le> 90) \<or> (192 \<le> n \<and> n \<le> 222 \<and> n \<noteq> 215)
         then char_of (n + 32) else c)"

definition lower :: "string \<Rightarrow> string" where
  "lower v = map lower_char v"

text \<open>
  \<^verbatim>\<open>Path(filename).suffix\<close>. It is computed only after the separator check, so the path
  has at most one component: its \<^verbatim>\<open>name\<close> is \<^verbatim>\<open>filename\<close>, or empty for \<^verbatim>\<open>''\<close> and
  \<^verbatim>\<open>'.'\<close>. Then \<^verbatim>\<open>i = name.rfind('.')\<close> and the suffix is \<^verbatim>\<open>name[i:]\<close> if
  \<^verbatim>\<open>0 < i < len(name) - 1\<close>, else empty.
\<close>

definition Path_name :: "string \<Rightarrow> string" where
  "Path_name filename = (if filename = ''.'' then [] else filename)"

definition Path_suffix :: "string \<Rightarrow> string" where
  "Path_suffix filename =
     (let name = Path_name filename; i = rfind CHR ''.'' name
      in if 0 < i \<and> i < int (length name) - 1 then drop (nat i) name else [])"

definition ALLOWED_EXTENSIONS :: "string list" where
  "ALLOWED_EXTENSIONS = [''.md'', ''.txt'', ''.pdf'', ''.doc'', ''.docx'']"

definition AVAILABLE_DOCUMENTS :: "(string \<times> string) list" where
  "AVAILABLE_DOCUMENTS =
     [(''employee-handbook.md'', ''Employee Handbook - Company policies and procedures''),
      (''code-of-conduct.md'',
       ''Code of Conduct - Ethical standards and behavioral expectations''),
      (''security-policy.md'',
       ''Security Policy - Information security guidelines and requirements'')]"

definition media_type_map :: "(string \<times> string) list" where
  "media_type_map =
     [(''.md'', ''text/markdown''),
      (''.txt'', ''text/plain''),
      (''.pdf'', ''application/pdf''),
      (''.doc'', ''application/msword''),
      (''.docx'',
       ''application/vnd.openxmlformats-officedocument.wordprocessingml.document'')]"

text \<open>
  What the handlers ask the file system about \<^verbatim>\<open>file_path = POLICIES_DIR / filename\<close>:
  what the path leads to (\<^verbatim>\<open>exists()\<close> and \<^verbatim>\<open>is_file()\<close> follow symbolic links), whether
  \<^verbatim>\<open>file_path.resolve()\<close> lies under \<^verbatim>\<open>POLICIES_DIR.resolve()\<close>, and \<^verbatim>\<open>stat().st_size\<close>.
  A symbolic link in the directory can lead anywhere, so \<open>Missing\<close> with a resolved
  path outside the directory is a state of the disk like any other.
\<close>

datatype file_kind = Missing | RegularFile | NotRegular

record path_status =
  kind :: file_kind
  resolves_inside :: bool
  st_size :: nat

type_synonym filesystem = "string \<Rightarrow> path_status"

definition path_traversal :: "string \<Rightarrow> bool" where
  "path_traversal filename =
     (contains ''..'' filename \<or> contains ''/'' filename \<or> contains [CHR 0x5C] filename)"

text \<open>
  \<^verbatim>\<open>GET /docs/{filename}\<close>: the checks in the order of the handler; a success is the
  media type of the \<^verbatim>\<open>FileResponse\<close>.
\<close>

definition get_document :: "filesystem \<Rightarrow> string \<Rightarrow> error + string" where
  "get_document fs filename =
     (if path_traversal filename then Inl (HTTPException 400)
      else
        let file_extension = lower (Path_suffix filename)
        in if file_extension \<notin> set ALLOWED_EXTENSIONS then Inl (HTTPException 403)
           else if map_of AVAILABLE_DOCUMENTS filename = None then Inl (HTTPException 404)
           else if kind (fs filename) = Missing then Inl (HTTPException 404)
           else if kind (fs filename) \<noteq> RegularFile then Inl (HTTPException 403)
           else if \<not> resolves_inside (fs filename) then Inl (HTTPException 403)
           else
             Inr (case map_of media_type_map file_extension of
                    None \<Rightarrow> ''application/octet-stream''
                  | Some media_type \<Rightarrow> media_type))"

text \<open>
  \<^verbatim>\<open>GET /docs/{filename}/info\<close>: a success is the description, the size, the extension
  and the download address of the answer (the modification time is left out).
\<close>

record document_info =
  description :: string
  size_bytes :: nat
  extension :: string
  download_url :: string

definition get_document_info :: "filesystem \<Rightarrow> string \<Rightarrow> error + document_info" where
  "get_document_info fs filename =
     (if path_traversal filename then Inl (HTTPException 400)
      else
        case map_of AVAILABLE_DOCUMENTS filename of
          None \<Rightarrow> Inl (HTTPException 404)
        | Some text \<Rightarrow>
            if kind (fs filename) = Missing then Inl (HTTPException 404)
            else Inr \<lparr>description = text,
                      size_bytes = st_size (fs filename),
                      extension = Path_suffix filename,
                      download_url = ''/api/docs/'' @ filename\<rparr>)"

section \<open>Sample data\<close>

text \<open>
  Two rows and a table that holds them; three rows written with one \<^verbatim>\<open>current_time\<close>, as
  \<^verbatim>\<open>seed_people_data\<close> writes them, and their table; two request bodies; five states of
  the disk.
\<close>

definition ann_lee :: Person where
  "ann_lee = \<lparr>name = ''Ann Lee'', role = ''Engineer'', department = ''Eng'',
     staffing_status = AVAILABLE, person_id = 1, created_at = 5, updated_at = 5\<rparr>"

definition bob_ray :: Person where
  "bob_ray = \<lparr>name = ''Bob Ray'', role = ''Test Engineer'', department = ''Testing'',
     staffing_status = STAFFED, person_id = 2, created_at = 7, updated_at = 8\<rparr>"

definition sample_db :: database where
  "sample_db = \<lparr>people = [ann_lee, bob_ray], sqlite_sequence = 2\<rparr>"

definition cy_bench :: Person where
  "cy_bench = \<lparr>name = ''Cy Bell'', role = ''Designer'', department = ''Design'',
     staffing_status = BENCH, person_id = 1, created_at = 5, updated_at = 5\<rparr>"

definition dee_staffed :: Person where
  "dee_staffed = \<lparr>name = ''Dee Hill'', role = ''Engineer'', department = ''Eng'',
     staffing_status = STAFFED, person_id = 2, created_at = 5, updated_at = 5\<rparr>"

definition eve_available :: Person where
  "eve_available = \<lparr>name = ''Eve Moss'', role = ''Analyst'', department = ''Ops'',
     staffing_status = AVAILABLE, person_id = 3, created_at = 5, updated_at = 5\<rparr>"

definition seeded_db :: database where
  "seeded_db = \<lparr>people = [cy_bench, dee_staffed, eve_available], sqlite_sequence = 3\<rparr>"

definition no_fields :: PersonUpdate where
  "no_fields = \<lparr>upd_name = None, upd_role = None, upd_department = None,
     upd_staffing_status = None\<rparr>"

definition role_only :: PersonUpdate where
  "role_only = \<lparr>upd_name = None, upd_role = Some ''Senior Test Engineer'',
     upd_department = None, upd_staffing_status = None\<rparr>"

definition plain_files :: filesystem where
  "plain_files filename = \<lparr>kind = RegularFile, resolves_inside = True, st_size = 1024\<rparr>"

definition no_files :: filesystem where
  "no_files filename = \<lparr>kind = Missing, resolves_inside = True, st_size = 0\<rparr>"

definition directories :: filesystem where
  "directories filename = \<lparr>kind = NotRegular, resolves_inside = True, st_size = 0\<rparr>"

definition links_to_outside_files :: filesystem where
  "links_to_outside_files filename =
     \<lparr>kind = RegularFile, resolves_inside = False, st_size = 2048\<rparr>"

definition dangling_links_to_outside :: filesystem where
  "dangling_links_to_outside filename =
     \<lparr>kind = Missing, resolves_inside = False, st_size = 0\<rparr>"

section \<open>Vocabulary of the properties\<close>

text \<open>
  A text that the data model rejects: empty, white space only, or longer than 100
  characters.
\<close>

definition invalid_text :: "string \<Rightarrow> bool" where
  "invalid_text v = (v = [] \<or> list_all isspace v \<or> 100 < length v)"



text \<open>A body of an update that supplies none of the four fields.\<close>

definition supplies_nothing :: "PersonUpdate \<Rightarrow> bool" where
  "supplies_nothing person_data =
     (upd_name person_data = None \<and> upd_role person_data = None
      \<and> upd_department person_data = None \<and> upd_staffing_status person_data = None)"

definition newest_first :: "Person list \<Rightarrow> bool" where
  "newest_first ps = sorted_wrt (\<lambda>p q. created_at q \<le> created_at p) ps"

section \<open>Ordering lemmas\<close>

lemma set_insert_desc: "set (insert_desc p ps) = insert p (set ps)"
  by (induction ps) auto

lemma length_insert_desc: "length (insert_desc p ps) = Suc (length ps)"
  by (induction ps) auto

lemma length_order_by: "length (order_by_created_at_desc ps) = length ps"
  by (induction ps) (auto simp: length_insert_desc)

lemma set_order_by: "set (order_by_created_at_desc ps) = set ps"
  by (induction ps) (auto simp: set_insert_desc)

lemma newest_first_insert_desc:
  "newest_first ps \<Longrightarrow> newest_first (insert_desc p ps)"
  unfolding newest_first_def
  by (induction ps) (auto simp: set_insert_desc)

lemma newest_first_order_by: "newest_first (order_by_created_at_desc ps)"
proof (induction ps)
  case Nil
  show ?case by (simp add: newest_first_def)
next
  case (Cons p ps)
  then show ?case by (simp add: newest_first_insert_desc)
qed

lemma filter_insert_desc_drop:
  "\<not> P p \<Longrightarrow> filter P (insert_desc p ps) = filter P ps"
  by (induction ps) auto

lemma insert_desc_head:
  "\<forall>q \<in> set ps. created_at q \<le> created_at p \<Longrightarrow> insert_desc p ps = p # ps"
  by (cases ps) auto

lemma filter_insert_desc_keep:
  "newest_first ps \<Longrightarrow> P p \<Longrightarrow>
   filter P (insert_desc p ps) = insert_desc p (filter P ps)"
proof (induction ps)
  case Nil
  then show ?case by simp
next
  case (Cons q qs)
  show ?case
  proof (cases "created_at q \<le> created_at p")
    case True
    from Cons.prems(1) have below: "\<forall>r \<in> set qs. created_at r \<le> created_at q"
      by (simp add: newest_first_def)
    with True have "\<forall>r \<in> set (filter P (q # qs)). created_at r \<le> created_at p"
      by auto
    then have "insert_desc p (filter P (q # qs)) = p # filter P (q # qs)"
      by (rule insert_desc_head)
    with True Cons.prems(2) show ?thesis by simp
  next
    case False
    from Cons.prems(1) have "newest_first qs"
      by (simp add: newest_first_def)
    with Cons.IH Cons.prems(2) have "filter P (insert_desc p qs) = insert_desc p (filter P qs)"
      by simp
    with False show ?thesis by simp
  qed
qed

lemma filter_order_by:
  "filter P (order_by_created_at_desc ps) = order_by_created_at_desc (filter P ps)"
  by (induction ps)
     (simp_all add: filter_insert_desc_drop filter_insert_desc_keep newest_first_order_by)

lemma on_beach_iff: "on_beach p \<longleftrightarrow> staffing_status p \<noteq> STAFFED"
  by (cases "staffing_status p") (simp_all add: on_beach_def)

lemma on_beach_cases:
  "on_beach p \<longleftrightarrow> staffing_status p = BENCH \<or> staffing_status p = AVAILABLE"
  by (cases "staffing_status p") (simp_all add: on_beach_def)

lemma mset_insert_desc: "mset (insert_desc p ps) = add_mset p (mset ps)"
  by (induction ps) simp_all

lemma mset_order_by: "mset (order_by_created_at_desc ps) = mset ps"
  by (induction ps) (simp_all add: mset_insert_desc)

lemma mset_index_scan:
  "mset (idx_people_staffing_status [''available'', ''bench''] rows) =
   mset (filter on_beach rows)"
proof (induction rows)
  case Nil
  show ?case by (simp add: idx_people_staffing_status_def)
next
  case (Cons row rows)
  then show ?case
    by (cases "staffing_status row") (simp_all add: idx_people_staffing_status_def on_beach_def)
qed

lemma mset_beach:
  "mset (BeachService_get_people_on_beach db) = mset (filter on_beach (people db))"
  by (simp add: BeachService_get_people_on_beach_def mset_order_by mset_index_scan)

section \<open>Lookup lemmas\<close>

lemma get_person_by_id_in_range:
  "sqlite_integer pid \<Longrightarrow>
   get_person_by_id db pid =
     (case fetchone (select_where_id db pid) of
        None \<Rightarrow> Inl (HTTPException 404)
      | Some row \<Rightarrow> Inr row)"
  by (simp add: get_person_by_id_def)

lemma get_person_by_id_found:
  "get_person_by_id db pid = Inr p \<longleftrightarrow>
     sqlite_integer pid \<and> fetchone (select_where_id db pid) = Some p"
  by (simp add: get_person_by_id_def split: option.splits)

lemma out_of_range_id:
  assumes "\<not> sqlite_integer pid"
  shows "get_person_by_id db pid = Inl (HTTPException 500)"
    and "update_person db t pid person_data = (db, Inl (HTTPException 500))"
    and "delete_person db pid = (db, Inl (HTTPException 500))"
  using assms by (simp_all add: get_person_by_id_def update_person_def delete_person_def)

lemma fetchone_None_iff: "fetchone rows = None \<longleftrightarrow> rows = []"
  by (cases rows) simp_all

lemma select_empty_iff:
  "select_where_id db pid = [] \<longleftrightarrow> pid \<notin> person_id ` set (people db)"
  by (auto simp: select_where_id_def filter_empty_conv)

lemma fetched_row_id:
  "fetchone (select_where_id db pid) = Some p \<Longrightarrow> person_id p = pid \<and> p \<in> set (people db)"
proof -
  assume "fetchone (select_where_id db pid) = Some p"
  then have "p \<in> set (select_where_id db pid)"
    by (cases "select_where_id db pid") auto
  then show ?thesis
    by (simp add: select_where_id_def)
qed

section \<open>Delete lemmas\<close>


lemma select_other_after_delete:
  "q \<noteq> pid \<Longrightarrow> select_where_id (delete_from_people db pid) q = select_where_id db q"
  by (auto simp: select_where_id_def delete_from_people_def intro: filter_cong)

section \<open>Update lemmas\<close>

lemma person_id_assign: "person_id (assign a row) = person_id row"
  by (cases a) simp_all

lemma created_at_assign: "created_at (assign a row) = created_at row"
  by (cases a) simp_all

lemma person_id_fold_assign: "person_id (fold assign sets row) = person_id row"
  by (induction sets arbitrary: row) (simp_all add: person_id_assign)

lemma created_at_fold_assign: "created_at (fold assign sets row) = created_at row"
  by (induction sets arbitrary: row) (simp_all add: created_at_assign)

lemma filter_same_map_assign:
  "filter (\<lambda>row. person_id row = pid)
     (map (\<lambda>row. if person_id row = pid then fold assign sets row else row) rows) =
   map (fold assign sets) (filter (\<lambda>row. person_id row = pid) rows)"
  by (induction rows) (simp_all add: person_id_fold_assign)

lemma select_after_update:
  "select_where_id (update_people db sets pid) pid =
   map (fold assign sets) (select_where_id db pid)"
  by (simp add: select_where_id_def update_people_def filter_same_map_assign)


lemma update_fields_empty_iff:
  "update_fields person_data = [] \<longleftrightarrow>
     upd_name person_data = None \<and> upd_role person_data = None \<and>
     upd_department person_data = None \<and> upd_staffing_status person_data = None"
  by (simp add: update_fields_def split: option.splits)

lemma fold_assign_fields:
  "name (fold assign (update_fields person_data @ [Set_updated_at t]) row) =
     (case upd_name person_data of None \<Rightarrow> name row | Some v \<Rightarrow> v)"
  "role (fold assign (update_fields person_data @ [Set_updated_at t]) row) =
     (case upd_role person_data of None \<Rightarrow> role row | Some v \<Rightarrow> v)"
  "department (fold assign (update_fields person_data @ [Set_updated_at t]) row) =
     (case upd_department person_data of None \<Rightarrow> department row | Some v \<Rightarrow> v)"
  "staffing_status (fold assign (update_fields person_data @ [Set_updated_at t]) row) =
     (case upd_staffing_status person_data of None \<Rightarrow> staffing_status row | Some v \<Rightarrow> v)"
  "updated_at (fold assign (update_fields person_data @ [Set_updated_at t]) row) = t"
  by (simp_all add: update_fields_def split: option.splits)

lemma filter_other_map_assign:
  "q \<noteq> pid \<Longrightarrow>
   filter (\<lambda>row. person_id row = q)
     (map (\<lambda>row. if person_id row = pid then fold assign sets row else row) rows) =
   filter (\<lambda>row. person_id row = q) rows"
  by (induction rows) (simp_all add: person_id_fold_assign)

lemma filter_rest_map_assign:
  "filter (\<lambda>row. person_id row \<noteq> pid)
     (map (\<lambda>row. if person_id row = pid then fold assign sets row else row) rows) =
   filter (\<lambda>row. person_id row \<noteq> pid) rows"
  by (induction rows) (simp_all add: person_id_fold_assign)

lemma select_other_after_update:
  "q \<noteq> pid \<Longrightarrow> select_where_id (update_people db sets pid) q = select_where_id db q"
  by (simp add: select_where_id_def update_people_def filter_other_map_assign)

lemma people_other_after_update:
  "filter (\<lambda>row. person_id row \<noteq> pid) (people (update_people db sets pid)) =
   filter (\<lambda>row. person_id row \<noteq> pid) (people db)"
  by (simp add: update_people_def filter_rest_map_assign)

lemma ids_after_update:
  "map person_id (people (update_people db sets pid)) = map person_id (people db)"
  by (simp add: update_people_def person_id_fold_assign)

lemma update_person_success:
  assumes range: "sqlite_integer pid"
    and found: "fetchone (select_where_id db pid) = Some p"
    and given: "update_fields person_data \<noteq> []"
  shows "update_person db t pid person_data =
           (update_people db (update_fields person_data @ [Set_updated_at t]) pid,
            Inr (fold assign (update_fields person_data @ [Set_updated_at t]) p))"
proof -
  from found obtain rest where "select_where_id db pid = p # rest"
    by (cases "select_where_id db pid") auto
  then have "fetchone (select_where_id (update_people db (update_fields person_data @ [Set_updated_at t]) pid) pid)
      = Some (fold assign (update_fields person_data @ [Set_updated_at t]) p)"
    by (simp add: select_after_update)
  with range found given show ?thesis
    by (simp add: update_person_def Let_def)
qed


section \<open>Create lemmas\<close>

lemma fold_max_lower: "a \<le> fold max xs (a::int)"
  by (induction xs arbitrary: a) (auto intro: order_trans [OF max.cobounded2])

lemma fold_max_upper: "x \<in> set xs \<Longrightarrow> x \<le> fold max xs (a::int)"
proof (induction xs arbitrary: a)
  case Nil
  then show ?case by simp
next
  case (Cons y ys)
  show ?case
  proof (cases "x = y")
    case True
    have "max y a \<le> fold max ys (max y a)" by (rule fold_max_lower)
    with True show ?thesis by simp
  next
    case False
    with Cons.prems have "x \<in> set ys" by simp
    then show ?thesis by (simp add: Cons.IH)
  qed
qed

lemma next_rowid_fresh: "row \<in> set (people db) \<Longrightarrow> person_id row < next_rowid db"
proof -
  assume "row \<in> set (people db)"
  then have "person_id row \<in> set (map person_id (people db))" by simp
  then have "person_id row \<le> fold max (map person_id (people db)) (sqlite_sequence db)"
    by (rule fold_max_upper)
  then show ?thesis by (simp add: next_rowid_def)
qed

lemma select_fresh: "select_where_id db (next_rowid db) = []"
proof -
  have "person_id row \<noteq> next_rowid db" if "row \<in> set (people db)" for row
    using next_rowid_fresh [OF that] by simp
  then show ?thesis
    by (simp add: select_where_id_def filter_empty_conv)
qed

lemma insert_into_people_result:
  "insert_into_people db n r d s c u =
     (\<lparr>people = people db @
         [\<lparr>name = n, role = r, department = d, staffing_status = s,
           person_id = next_rowid db, created_at = c, updated_at = u\<rparr>],
       sqlite_sequence = next_rowid db\<rparr>, next_rowid db)"
  by (simp add: insert_into_people_def Let_def)

lemma select_inserted:
  "select_where_id (fst (insert_into_people db n r d s c u)) (next_rowid db) =
     [\<lparr>name = n, role = r, department = d, staffing_status = s,
       person_id = next_rowid db, created_at = c, updated_at = u\<rparr>]"
  using select_fresh [of db]
  by (simp add: insert_into_people_result select_where_id_def)

lemma create_person_result:
  "create_person db t person_data =
     (fst (insert_into_people db (name person_data) (role person_data)
             (department person_data) (staffing_status person_data) t t),
      Inr \<lparr>name = name person_data, role = role person_data,
            department = department person_data,
            staffing_status = staffing_status person_data,
            person_id = next_rowid db, created_at = t, updated_at = t\<rparr>)"
  using select_inserted [of db "name person_data" "role person_data" "department person_data"
      "staffing_status person_data" t t]
  by (simp add: create_person_def insert_into_people_result)

lemma PeopleService_create_person_result:
  "PeopleService_create_person db t1 t2 person_data =
     (fst (insert_into_people db (name person_data) (role person_data)
             (department person_data) (staffing_status person_data) t1 t2),
      Some \<lparr>name = name person_data, role = role person_data,
             department = department person_data,
             staffing_status = staffing_status person_data,
             person_id = next_rowid db, created_at = t1, updated_at = t2\<rparr>)"
  using select_inserted [of db "name person_data" "role person_data" "department person_data"
      "staffing_status person_data" t1 t2]
  by (simp add: PeopleService_create_person_def PeopleService_get_person_by_id_def
      insert_into_people_result)

section \<open>Validation lemmas\<close>

lemma dropWhile_all: "list_all P v \<Longrightarrow> dropWhile P v = []"
  by (induction v) simp_all

lemma dropWhile_none: "v \<noteq> [] \<Longrightarrow> \<not> P (hd v) \<Longrightarrow> dropWhile P v = v"
  by (cases v) simp_all

lemma strip_blank: "list_all isspace v \<Longrightarrow> strip v = []"
  by (simp add: strip_def dropWhile_all)

lemma strip_trimmed:
  assumes "v \<noteq> []" "\<not> isspace (hd v)" "\<not> isspace (last v)"
  shows "strip v = v"
proof -
  from assms(1,2) have "dropWhile isspace v = v"
    by (rule dropWhile_none)
  moreover from assms(1,3) have "dropWhile isspace (rev v) = rev v"
    by (intro dropWhile_none) (simp_all add: hd_rev)
  ultimately show ?thesis by (simp add: strip_def)
qed

lemma strip_blank_iff: "strip v = [] \<longleftrightarrow> list_all isspace v"
proof
  assume "strip v = []"
  then have all: "list_all isspace (dropWhile isspace v)"
    by (simp add: strip_def dropWhile_eq_Nil_conv list_all_iff)
  have "dropWhile isspace v = []"
  proof (rule ccontr)
    assume rest: "dropWhile isspace v \<noteq> []"
    then have "\<not> isspace (hd (dropWhile isspace v))"
      by (rule hd_dropWhile)
    moreover from rest all have "isspace (hd (dropWhile isspace v))"
      by (cases "dropWhile isspace v") simp_all
    ultimately show False by simp
  qed
  then show "list_all isspace v"
    by (simp add: dropWhile_eq_Nil_conv list_all_iff)
qed (rule strip_blank)

lemma length_strip: "length (strip v) \<le> length v"
proof -
  have "length (dropWhile isspace (rev (dropWhile isspace v))) \<le> length (rev (dropWhile isspace v))"
    by (rule length_dropWhile_le)
  also have "\<dots> \<le> length v"
    by (simp add: length_dropWhile_le)
  finally show ?thesis by (simp add: strip_def)
qed

lemma text_field_invalid: "invalid_text v \<Longrightarrow> text_field v = Inl ValidationError"
  by (auto simp: invalid_text_def text_field_def validate_text_fields_def strip_blank)

lemma text_field_valid: "\<not> invalid_text v \<Longrightarrow> text_field v = Inr (strip v)"
  by (auto simp: invalid_text_def text_field_def validate_text_fields_def strip_blank_iff)

lemma StaffingStatus_of_value: "StaffingStatus_of (StaffingStatus_value s) = Inr s"
  by (cases s) (simp_all add: StaffingStatus_of_def)

lemma StaffingStatus_of_other:
  "s \<notin> set [''staffed'', ''bench'', ''available''] \<Longrightarrow> StaffingStatus_of s = Inl ValidationError"
  by (simp add: StaffingStatus_of_def)

lemma PersonCreate_invalid:
  "invalid_text n \<or> invalid_text r \<or> invalid_text d \<or> s \<notin> set [''staffed'', ''bench'', ''available'']
   \<Longrightarrow> PersonCreate n r d s = Inl ValidationError"
  by (auto simp: PersonCreate_def text_field_invalid StaffingStatus_of_other split: sum.splits)

lemma PersonCreate_valid:
  "\<not> invalid_text n \<Longrightarrow> \<not> invalid_text r \<Longrightarrow> \<not> invalid_text d \<Longrightarrow>
   PersonCreate n r d (StaffingStatus_value s) =
     Inr \<lparr>name = strip n, role = strip r, department = strip d, staffing_status = s\<rparr>"
  by (simp add: PersonCreate_def text_field_valid StaffingStatus_of_value)

section \<open>Handler lemmas\<close>

lemmas sample_defs = sample_db_def ann_lee_def bob_ray_def no_fields_def role_only_def
  seeded_db_def cy_bench_def dee_staffed_def eve_available_def

lemma absent_iff:
  "fetchone (select_where_id db pid) = None \<longleftrightarrow> pid \<notin> person_id ` set (people db)"
  by (simp add: fetchone_None_iff select_empty_iff)

lemma get_person_by_id_absent:
  "sqlite_integer pid \<Longrightarrow> pid \<notin> person_id ` set (people db) \<Longrightarrow>
   get_person_by_id db pid = Inl (HTTPException 404)"
  using absent_iff [of db pid] by (simp add: get_person_by_id_def)


lemma update_person_no_fields:
  "sqlite_integer pid \<Longrightarrow> fetchone (select_where_id db pid) = Some p \<Longrightarrow>
   update_fields person_data = [] \<Longrightarrow>
   update_person db t pid person_data = (db, Inl (HTTPException 400))"
  by (simp add: update_person_def)

lemma sample_ids: "sqlite_integer 1" "sqlite_integer 2" "sqlite_integer 3"
  by (simp_all add: sqlite_integer_def)

lemma POST_people_valid:
  assumes "\<not> invalid_text n" "\<not> invalid_text r" "\<not> invalid_text d"
  shows "POST_people db t n r d (StaffingStatus_value s) =
     create_person db t
       \<lparr>name = strip n, role = strip r, department = strip d, staffing_status = s\<rparr>"
  using assms by (simp add: POST_people_def PersonCreate_valid)

lemma get_created_person:
  "sqlite_integer (next_rowid db) \<Longrightarrow>
   get_person_by_id (fst (create_person db t person_data)) (next_rowid db) =
     snd (create_person db t person_data)"
  using select_inserted [of db "name person_data" "role person_data" "department person_data"
      "staffing_status person_data" t t]
  by (simp add: create_person_result get_person_by_id_def)

lemma create_person_roundtrip:
  assumes "\<not> invalid_text n" "\<not> invalid_text r" "\<not> invalid_text d"
    and range: "sqlite_integer (next_rowid db)"
  shows "\<exists>db' p.
      POST_people db t n r d (StaffingStatus_value s) = (db', Inr p)
    \<and> get_person_by_id db' (person_id p) = Inr p
    \<and> name p = strip n \<and> role p = strip r \<and> department p = strip d
    \<and> staffing_status p = s
    \<and> created_at p = updated_at p"
proof -
  let ?data = "\<lparr>name = strip n, role = strip r, department = strip d, staffing_status = s\<rparr>"
  let ?p = "\<lparr>name = strip n, role = strip r, department = strip d, staffing_status = s,
    person_id = next_rowid db, created_at = t, updated_at = t\<rparr>"
  have run: "POST_people db t n r d (StaffingStatus_value s) =
      (fst (create_person db t ?data), Inr ?p)"
    using assms by (simp add: POST_people_valid create_person_result)
  have "get_person_by_id (fst (create_person db t ?data)) (person_id ?p) = Inr ?p"
    using get_created_person [OF range, of t ?data] by (simp add: create_person_result)
  with run show ?thesis
    by (intro exI [of _ "fst (create_person db t ?data)"] exI [of _ ?p]) simp
qed

lemma trimmed_text_valid:
  assumes "v \<noteq> []" "\<not> isspace (hd v)" "\<not> isspace (last v)" "length v \<le> 100"
  shows "\<not> invalid_text v \<and> strip v = v"
proof -
  from assms(1,2) have "\<not> list_all isspace v"
    by (cases v) simp_all
  with assms show ?thesis
    by (simp add: invalid_text_def strip_trimmed)
qed

lemma create_then_get_same_fields:
  assumes "n \<noteq> []" "\<not> isspace (hd n)" "\<not> isspace (last n)" "length n \<le> 100"
    and "r \<noteq> []" "\<not> isspace (hd r)" "\<not> isspace (last r)" "length r \<le> 100"
    and "d \<noteq> []" "\<not> isspace (hd d)" "\<not> isspace (last d)" "length d \<le> 100"
    and range: "sqlite_integer (next_rowid db)"
  shows "\<exists>db' p.
      POST_people db t n r d (StaffingStatus_value s) = (db', Inr p)
    \<and> get_person_by_id db' (person_id p) = Inr p
    \<and> name p = n \<and> role p = r \<and> department p = d \<and> staffing_status p = s
    \<and> created_at p = updated_at p"
proof -
  from assms have n: "\<not> invalid_text n \<and> strip n = n"
    and r: "\<not> invalid_text r \<and> strip r = r"
    and d: "\<not> invalid_text d \<and> strip d = d"
    by (simp_all add: trimmed_text_valid)
  with create_person_roundtrip [of n r d db t s] range show ?thesis
    by simp
qed

section \<open>Document lemmas\<close>

lemma allow_listed_names:
  "map_of AVAILABLE_DOCUMENTS f \<noteq> None \<Longrightarrow>
   f = ''employee-handbook.md'' \<or> f = ''code-of-conduct.md'' \<or> f = ''security-policy.md''"
  by (simp add: AVAILABLE_DOCUMENTS_def split: if_splits)

lemma allow_listed_pass:
  assumes "map_of AVAILABLE_DOCUMENTS f \<noteq> None"
  shows "\<not> path_traversal f \<and> lower (Path_suffix f) \<in> set ALLOWED_EXTENSIONS"
proof -
  have "\<not> path_traversal ''employee-handbook.md''
      \<and> lower (Path_suffix ''employee-handbook.md'') \<in> set ALLOWED_EXTENSIONS"
    by code_simp
  moreover have "\<not> path_traversal ''code-of-conduct.md''
      \<and> lower (Path_suffix ''code-of-conduct.md'') \<in> set ALLOWED_EXTENSIONS"
    by code_simp
  moreover have "\<not> path_traversal ''security-policy.md''
      \<and> lower (Path_suffix ''security-policy.md'') \<in> set ALLOWED_EXTENSIONS"
    by code_simp
  ultimately show ?thesis
    using allow_listed_names [OF assms] by auto
qed

lemma contains_iff: "contains sub s \<longleftrightarrow> (\<exists>pre post. s = pre @ sub @ post)"
proof
  show "contains sub s \<Longrightarrow> \<exists>pre post. s = pre @ sub @ post"
  proof (induction s)
    case Nil
    then show ?case by simp
  next
    case (Cons c cs)
    show ?case
    proof (cases "take (length sub) (c # cs) = sub")
      case True
      then have "c # cs = [] @ sub @ drop (length sub) (c # cs)"
        by (metis append_Nil append_take_drop_id)
      then show ?thesis by blast
    next
      case False
      with Cons.prems have "contains sub cs" by simp
      with Cons.IH obtain pre post where "cs = pre @ sub @ post" by blast
      then have "c # cs = (c # pre) @ sub @ post" by simp
      then show ?thesis by blast
    qed
  qed
next
  assume "\<exists>pre post. s = pre @ sub @ post"
  then obtain pre post where "s = pre @ sub @ post" by blast
  then show "contains sub s"
  proof (induction pre arbitrary: s)
    case Nil
    show ?case
    proof (cases s)
      case empty: Nil
      with Nil show ?thesis by simp
    next
      case (Cons c cs)
      from Nil have "take (length sub) s = sub" by simp
      with Cons show ?thesis by simp
    qed
  next
    case (Cons c pre)
    then show ?case by simp
  qed
qed

lemma contains_char_iff: "contains [c] s \<longleftrightarrow> c \<in> set s"
  by (induction s) auto

lemma path_traversal_iff:
  "path_traversal f \<longleftrightarrow>
     (\<exists>pre post. f = pre @ ''..'' @ post) \<or> CHR ''/'' \<in> set f \<or> CHR 0x5C \<in> set f"
  unfolding path_traversal_def contains_char_iff by (simp add: contains_iff)

lemma sample_names:
  "path_traversal ''../../etc/passwd''"
  "\<not> path_traversal ''report.exe''"
  "lower (Path_suffix ''report.exe'') \<notin> set ALLOWED_EXTENSIONS"
  "\<not> path_traversal ''notes.MD''"
  "lower (Path_suffix ''notes.MD'') \<in> set ALLOWED_EXTENSIONS"
  "map_of AVAILABLE_DOCUMENTS ''notes.MD'' = None"
  "\<not> path_traversal ''employee-handbook.md''"
  "lower (Path_suffix ''employee-handbook.md'') \<in> set ALLOWED_EXTENSIONS"
  "map_of AVAILABLE_DOCUMENTS ''employee-handbook.md'' \<noteq> None"
  by code_simp+

lemma get_document_info_checks:
  "(path_traversal f \<longrightarrow>
      get_document_info fs f = Inl (HTTPException 400)
      \<and> get_document fs f = Inl (HTTPException 400))
   \<and> (\<not> path_traversal f \<and> map_of AVAILABLE_DOCUMENTS f = None \<longrightarrow>
        get_document_info fs f = Inl (HTTPException 404)
        \<and> get_document fs f =
            Inl (HTTPException
              (if lower (Path_suffix f) \<in> set ALLOWED_EXTENSIONS then 404 else 403)))
   \<and> (map_of AVAILABLE_DOCUMENTS f \<noteq> None \<and> kind (fs f) = Missing \<longrightarrow>
        get_document_info fs f = Inl (HTTPException 404)
        \<and> get_document fs f = Inl (HTTPException 404))
   \<and> (map_of AVAILABLE_DOCUMENTS f \<noteq> None \<and> kind (fs f) \<noteq> Missing \<longrightarrow>
        (\<exists>info. get_document_info fs f = Inr info))"
proof -
  have "path_traversal f \<longrightarrow>
      get_document_info fs f = Inl (HTTPException 400)
      \<and> get_document fs f = Inl (HTTPException 400)"
    by (simp add: get_document_info_def get_document_def)
  moreover have "\<not> path_traversal f \<and> map_of AVAILABLE_DOCUMENTS f = None \<longrightarrow>
        get_document_info fs f = Inl (HTTPException 404)
        \<and> get_document fs f =
            Inl (HTTPException
              (if lower (Path_suffix f) \<in> set ALLOWED_EXTENSIONS then 404 else 403))"
    by (simp add: get_document_info_def get_document_def Let_def)
  moreover have "map_of AVAILABLE_DOCUMENTS f \<noteq> None \<and> kind (fs f) = Missing \<longrightarrow>
        get_document_info fs f = Inl (HTTPException 404)
        \<and> get_document fs f = Inl (HTTPException 404)"
    using allow_listed_pass [of f]
    by (auto simp: get_document_info_def get_document_def Let_def)
  moreover have "map_of AVAILABLE_DOCUMENTS f \<noteq> None \<and> kind (fs f) \<noteq> Missing \<longrightarrow>
        (\<exists>info. get_document_info fs f = Inr info)"
    using allow_listed_pass [of f]
    by (auto simp: get_document_info_def)
  ultimately show ?thesis by blast
qed

section \<open>The beach view\<close>

text \<open>
  Claim C10. For every database state, \<^verbatim>\<open>get_beach_count()\<close> equals the length of the
  list that \<^verbatim>\<open>get_people_on_beach()\<close> returns.
\<close>

theorem beach_count_is_length:
  "BeachService_get_beach_count db = int (length (BeachService_get_people_on_beach db))"
proof -
  have "length (BeachService_get_people_on_beach db) =
      size (mset (BeachService_get_people_on_beach db))"
    by (rule size_mset [symmetric])
  also have "\<dots> = size (mset (filter on_beach (people db)))"
    by (simp only: mset_beach)
  also have "\<dots> = length (filter on_beach (people db))"
    by (rule size_mset)
  finally show ?thesis
    by (simp add: BeachService_get_beach_count_def)
qed

text \<open>
  On the sample table the beach holds one person, and the count is 1.
\<close>

theorem beach_count_is_length_witness:
  "BeachService_get_people_on_beach sample_db = [ann_lee]
   \<and> BeachService_get_beach_count sample_db = 1"
  using beach_count_is_length [of sample_db]
  by (simp add: BeachService_get_people_on_beach_def idx_people_staffing_status_def
      sample_defs)

text \<open>
  Claim C1. For every database state, \<^verbatim>\<open>get_people_on_beach()\<close> returns exactly the rows of
  \<^verbatim>\<open>get_all_people()\<close> whose status is bench or available (each as often as it is there),
  ordered by \<open>created_at\<close> descending, and no row with status staffed is among them. Rows of
  equal \<open>created_at\<close> need not come in the order \<^verbatim>\<open>get_all_people()\<close> gives them.
\<close>

theorem beach_rows_of_list:
  "mset (BeachService_get_people_on_beach db) =
     mset (filter (\<lambda>p. staffing_status p = BENCH \<or> staffing_status p = AVAILABLE)
       (PeopleService_get_all_people db))
   \<and> newest_first (BeachService_get_people_on_beach db)
   \<and> STAFFED \<notin> staffing_status ` set (BeachService_get_people_on_beach db)"
proof -
  have same: "on_beach = (\<lambda>p. staffing_status p = BENCH \<or> staffing_status p = AVAILABLE)"
    by (rule ext) (rule on_beach_cases)
  have "mset (filter on_beach (PeopleService_get_all_people db)) =
      mset (filter on_beach (people db))"
    by (simp add: PeopleService_get_all_people_def mset_order_by)
  then have rows: "mset (BeachService_get_people_on_beach db) =
      mset (filter on_beach (PeopleService_get_all_people db))"
    by (simp only: mset_beach)
  have sorted: "newest_first (BeachService_get_people_on_beach db)"
    by (simp add: BeachService_get_people_on_beach_def newest_first_order_by)
  have "set (BeachService_get_people_on_beach db) = set (filter on_beach (people db))"
    using mset_beach [of db] by (rule mset_eq_setD)
  then have "STAFFED \<notin> staffing_status ` set (BeachService_get_people_on_beach db)"
    by (auto simp: on_beach_iff)
  with rows sorted show ?thesis
    by (simp add: same)
qed

text \<open>
  On the seeded table all three rows have one \<open>created_at\<close>: the list keeps the table
  order, the beach comes in index order (available before bench), and the two hold the
  same beach rows.
\<close>

theorem beach_rows_of_list_witness:
  "PeopleService_get_all_people seeded_db = [cy_bench, dee_staffed, eve_available]
   \<and> BeachService_get_people_on_beach seeded_db = [eve_available, cy_bench]
   \<and> mset [eve_available, cy_bench] =
       mset (filter (\<lambda>p. staffing_status p = BENCH \<or> staffing_status p = AVAILABLE)
         [cy_bench, dee_staffed, eve_available])
   \<and> newest_first [eve_available, cy_bench]"
proof -
  have list: "PeopleService_get_all_people seeded_db = [cy_bench, dee_staffed, eve_available]"
    by (simp add: PeopleService_get_all_people_def sample_defs)
  have beach: "BeachService_get_people_on_beach seeded_db = [eve_available, cy_bench]"
    by (simp add: BeachService_get_people_on_beach_def idx_people_staffing_status_def
        sample_defs)
  from beach_rows_of_list [of seeded_db] list beach show ?thesis
    by simp
qed

section \<open>Deleting a person\<close>



section \<open>Updating a person\<close>





text \<open>
  Claim C2, as amended. For every existing person and every body (any subset of name,
  role, department and staffing_status supplied), after \<^verbatim>\<open>PUT /people/{id}\<close> the stored person
  has the supplied values and keeps every field that was not supplied, its id and its
  \<open>created_at\<close>, and the rows of other ids and the id counter are untouched. A body that
  supplies at least one field is accepted, the answer is the stored person, and its
  \<open>updated_at\<close> is the clock reading of the request, whatever the former value was; a body
  that supplies none is answered 400 and \<open>updated_at\<close> stays.
\<close>

theorem update_person_frame:
  assumes found: "get_person_by_id db pid = Inr p"
  shows "\<exists>p'.
      get_person_by_id (fst (update_person db t pid person_data)) pid = Inr p'
    \<and> name p' = (case upd_name person_data of None \<Rightarrow> name p | Some v \<Rightarrow> v)
    \<and> role p' = (case upd_role person_data of None \<Rightarrow> role p | Some v \<Rightarrow> v)
    \<and> department p' =
        (case upd_department person_data of None \<Rightarrow> department p | Some v \<Rightarrow> v)
    \<and> staffing_status p' =
        (case upd_staffing_status person_data of None \<Rightarrow> staffing_status p | Some v \<Rightarrow> v)
    \<and> person_id p' = person_id p
    \<and> created_at p' = created_at p
    \<and> updated_at p' = (if supplies_nothing person_data then updated_at p else t)
    \<and> snd (update_person db t pid person_data) =
        (if supplies_nothing person_data then Inl (HTTPException 400) else Inr p')
    \<and> filter (\<lambda>row. person_id row \<noteq> pid) (people (fst (update_person db t pid person_data))) =
        filter (\<lambda>row. person_id row \<noteq> pid) (people db)
    \<and> sqlite_sequence (fst (update_person db t pid person_data)) = sqlite_sequence db"
proof -
  from found have range: "sqlite_integer pid"
    and row: "fetchone (select_where_id db pid) = Some p"
    by (simp_all add: get_person_by_id_found)
  show ?thesis
  proof (cases "supplies_nothing person_data")
    case True
    then have none: "update_fields person_data = []"
      by (simp add: update_fields_empty_iff supplies_nothing_def)
    with range row have "update_person db t pid person_data = (db, Inl (HTTPException 400))"
      by (simp add: update_person_no_fields)
    with True found show ?thesis
      by (simp add: supplies_nothing_def)
  next
    case False
    let ?sets = "update_fields person_data @ [Set_updated_at t]"
    let ?db' = "update_people db ?sets pid"
    let ?p' = "fold assign ?sets p"
    from False have some: "update_fields person_data \<noteq> []"
      by (simp add: update_fields_empty_iff supplies_nothing_def)
    from range row some have run: "update_person db t pid person_data = (?db', Inr ?p')"
      by (rule update_person_success)
    from row obtain rest where "select_where_id db pid = p # rest"
      by (cases "select_where_id db pid") auto
    with range have again: "get_person_by_id ?db' pid = Inr ?p'"
      by (simp add: get_person_by_id_def select_after_update)
    have fields:
      "name ?p' = (case upd_name person_data of None \<Rightarrow> name p | Some v \<Rightarrow> v)"
      "role ?p' = (case upd_role person_data of None \<Rightarrow> role p | Some v \<Rightarrow> v)"
      "department ?p' =
         (case upd_department person_data of None \<Rightarrow> department p | Some v \<Rightarrow> v)"
      "staffing_status ?p' =
         (case upd_staffing_status person_data of None \<Rightarrow> staffing_status p | Some v \<Rightarrow> v)"
      "updated_at ?p' = t"
      by (rule fold_assign_fields)+
    have kept: "person_id ?p' = person_id p" "created_at ?p' = created_at p"
      by (rule person_id_fold_assign, rule created_at_fold_assign)
    have others: "filter (\<lambda>row. person_id row \<noteq> pid) (people ?db') =
        filter (\<lambda>row. person_id row \<noteq> pid) (people db)"
      by (rule people_other_after_update)
    have seq: "sqlite_sequence ?db' = sqlite_sequence db"
      by (simp add: update_people_def)
    from False again fields kept others seq show ?thesis
      unfolding run by (intro exI [of _ ?p']) simp
  qed
qed

text \<open>
  Person 2 of the sample table, updated at time 9 with a new role only: the role and
  \<open>updated_at\<close> change, nothing else does, and person 1 stays as it was. With the empty
  body the answer is 400 and the row is as before.
\<close>

theorem update_person_frame_witness:
  "get_person_by_id sample_db 2 = Inr bob_ray
   \<and> \<not> supplies_nothing role_only
   \<and> snd (update_person sample_db 9 2 role_only) =
       Inr (bob_ray\<lparr>role := ''Senior Test Engineer'', updated_at := 9\<rparr>)
   \<and> get_person_by_id (fst (update_person sample_db 9 2 role_only)) 2 =
       Inr (bob_ray\<lparr>role := ''Senior Test Engineer'', updated_at := 9\<rparr>)
   \<and> filter (\<lambda>row. person_id row \<noteq> 2) (people (fst (update_person sample_db 9 2 role_only))) =
       [ann_lee]
   \<and> supplies_nothing no_fields
   \<and> snd (update_person sample_db 9 2 no_fields) = Inl (HTTPException 400)
   \<and> get_person_by_id (fst (update_person sample_db 9 2 no_fields)) 2 = Inr bob_ray"
proof -
  have found: "get_person_by_id sample_db 2 = Inr bob_ray"
    by (simp add: get_person_by_id_def select_where_id_def sample_defs sample_ids)
  have given: "\<not> supplies_nothing role_only"
    by (simp add: supplies_nothing_def role_only_def)
  have none: "supplies_nothing no_fields"
    by (simp add: supplies_nothing_def no_fields_def)
  have rest: "filter (\<lambda>row. person_id row \<noteq> 2) (people sample_db) = [ann_lee]"
    by (simp add: sample_defs)
  from update_person_frame [OF found, where t = 9 and person_data = role_only] given
  obtain p' where
    again: "get_person_by_id (fst (update_person sample_db 9 2 role_only)) 2 = Inr p'"
    and n: "name p' = name bob_ray" and r: "role p' = ''Senior Test Engineer''"
    and d: "department p' = department bob_ray"
    and s: "staffing_status p' = staffing_status bob_ray"
    and i: "person_id p' = person_id bob_ray" and c: "created_at p' = created_at bob_ray"
    and u: "updated_at p' = 9"
    and run: "snd (update_person sample_db 9 2 role_only) = Inr p'"
    and others: "filter (\<lambda>row. person_id row \<noteq> 2)
        (people (fst (update_person sample_db 9 2 role_only))) =
        filter (\<lambda>row. person_id row \<noteq> 2) (people sample_db)"
    by (auto simp: role_only_def)
  from n r d s i c u have "p' = bob_ray\<lparr>role := ''Senior Test Engineer'', updated_at := 9\<rparr>"
    by (cases p') (simp add: bob_ray_def)
  moreover from update_person_frame [OF found, where t = 9 and person_data = no_fields] none
  have "snd (update_person sample_db 9 2 no_fields) = Inl (HTTPException 400)
      \<and> get_person_by_id (fst (update_person sample_db 9 2 no_fields)) 2 = Inr bob_ray"
    using found by (auto simp: update_person_def update_fields_def no_fields_def sample_ids
        get_person_by_id_found)
  ultimately show ?thesis
    using again run others rest found given none by simp
qed

text \<open>
  Claim C2 as stated has \<open>updated_at\<close> never fall. The handler writes the reading of
  \<^verbatim>\<open>datetime.now()\<close>, the local wall clock, with no comparison to the stored value: a row
  last updated at 8 and updated again when the clock reads 3 (the clock was set back in
  between) is stored and returned with \<open>updated_at\<close> 3.
\<close>

theorem update_person_clock_set_back_counterexample:
  "get_person_by_id
     \<lparr>people =
        [\<lparr>name = ''Bob Ray'', role = ''Test Engineer'', department = ''Testing'',
          staffing_status = STAFFED, person_id = 2, created_at = 7, updated_at = 8\<rparr>],
      sqlite_sequence = 2\<rparr> 2 =
     Inr \<lparr>name = ''Bob Ray'', role = ''Test Engineer'', department = ''Testing'',
          staffing_status = STAFFED, person_id = 2, created_at = 7, updated_at = 8\<rparr>
   \<and> update_person
     \<lparr>people =
        [\<lparr>name = ''Bob Ray'', role = ''Test Engineer'', department = ''Testing'',
          staffing_status = STAFFED, person_id = 2, created_at = 7, updated_at = 8\<rparr>],
      sqlite_sequence = 2\<rparr> 3 2
     \<lparr>upd_name = None, upd_role = Some ''Senior Test Engineer'', upd_department = None,
      upd_staffing_status = None\<rparr> =
     (\<lparr>people =
        [\<lparr>name = ''Bob Ray'', role = ''Senior Test Engineer'', department = ''Testing'',
          staffing_status = STAFFED, person_id = 2, created_at = 7, updated_at = 3\<rparr>],
      sqlite_sequence = 2\<rparr>,
      Inr \<lparr>name = ''Bob Ray'', role = ''Senior Test Engineer'', department = ''Testing'',
           staffing_status = STAFFED, person_id = 2, created_at = 7, updated_at = 3\<rparr>)
   \<and> \<not> (8::int) \<le> 3"
  by (simp add: get_person_by_id_def update_person_def update_people_def select_where_id_def
      update_fields_def sqlite_integer_def)

section \<open>Creating a person\<close>

text \<open>
  Claim C5. For every valid input, create followed by a lookup of the returned id yields
  a person with the same name, role, department and status, and \<open>created_at\<close> equals
  \<open>updated_at\<close>. The handler of \<^verbatim>\<open>POST /people\<close> does so (\<open>create_then_get_same_fields\<close>; a text with
  white space around it is stored stripped, \<open>create_person_roundtrip\<close>): it reads the clock
  once.
  \<^verbatim>\<open>PeopleService.create_person\<close> reads it twice, and when the two readings differ (here 5
  and 6) the person it stores and returns has \<open>created_at\<close> 5 and \<open>updated_at\<close> 6.
\<close>

theorem PeopleService_create_person_two_clock_readings:
  "PeopleService_create_person \<lparr>people = [], sqlite_sequence = 0\<rparr> 5 6
     \<lparr>name = ''Ann Lee'', role = ''Engineer'', department = ''Eng'',
      staffing_status = AVAILABLE\<rparr> =
   (\<lparr>people =
       [\<lparr>name = ''Ann Lee'', role = ''Engineer'', department = ''Eng'',
         staffing_status = AVAILABLE, person_id = 1, created_at = 5, updated_at = 6\<rparr>],
     sqlite_sequence = 1\<rparr>,
    Some \<lparr>name = ''Ann Lee'', role = ''Engineer'', department = ''Eng'',
          staffing_status = AVAILABLE, person_id = 1, created_at = 5, updated_at = 6\<rparr>)"
  by (simp add: PeopleService_create_person_def PeopleService_get_person_by_id_def
      insert_into_people_def next_rowid_def select_where_id_def)

text \<open>
  Claim C6. For every request to create a person in which the name, the role or the
  department is empty, white space only or longer than 100 characters, or the status is
  none of staffed, bench and available, the request fails with a validation error and the
  database is unchanged.
\<close>

theorem POST_people_invalid:
  assumes "invalid_text n \<or> invalid_text r \<or> invalid_text d
      \<or> s \<notin> set [''staffed'', ''bench'', ''available'']"
  shows "POST_people db t n r d s = (db, Inl ValidationError)"
  using assms by (simp add: POST_people_def PersonCreate_invalid)

text \<open>
  Four rejected requests: a name of three spaces, the status vacation, a role of 101
  characters, an empty department.
\<close>

theorem POST_people_invalid_witness:
  "invalid_text ''   ''
   \<and> POST_people sample_db 9 ''   '' ''Engineer'' ''Eng'' ''available'' =
       (sample_db, Inl ValidationError)
   \<and> ''vacation'' \<notin> set [''staffed'', ''bench'', ''available'']
   \<and> POST_people sample_db 9 ''Ann Lee'' ''Engineer'' ''Eng'' ''vacation'' =
       (sample_db, Inl ValidationError)
   \<and> invalid_text (replicate 101 CHR ''x'')
   \<and> POST_people sample_db 9 ''Ann Lee'' (replicate 101 CHR ''x'') ''Eng'' ''bench'' =
       (sample_db, Inl ValidationError)
   \<and> invalid_text []
   \<and> POST_people sample_db 9 ''Ann Lee'' ''Engineer'' [] ''staffed'' =
       (sample_db, Inl ValidationError)"
proof -
  have blank: "invalid_text ''   ''"
    by (simp add: invalid_text_def isspace_def)
  have long: "invalid_text (replicate 101 CHR ''x'')"
    by (simp add: invalid_text_def)
  have empty: "invalid_text []"
    by (simp add: invalid_text_def)
  have other: "''vacation'' \<notin> set [''staffed'', ''bench'', ''available'']"
    by simp
  from POST_people_invalid [where n = "''   ''" and r = "''Engineer''" and d = "''Eng''"
      and s = "''available''" and db = sample_db and t = 9]
    POST_people_invalid [where n = "''Ann Lee''" and r = "''Engineer''" and d = "''Eng''"
      and s = "''vacation''" and db = sample_db and t = 9]
    POST_people_invalid [where n = "''Ann Lee''" and r = "replicate 101 CHR ''x''"
      and d = "''Eng''" and s = "''bench''" and db = sample_db and t = 9]
    POST_people_invalid [where n = "''Ann Lee''" and r = "''Engineer''" and d = "[]"
      and s = "''staffed''" and db = sample_db and t = 9]
    blank long empty other
  show ?thesis by simp
qed

section \<open>Serving a document\<close>

text \<open>
  Claim C7, as amended. \<^verbatim>\<open>GET /docs/{filename}\<close> checks in this order. A filename that
  contains \<^verbatim>\<open>..\<close>, \<^verbatim>\<open>/\<close> or a backslash is answered 400; otherwise an extension outside the
  allowed ones is answered 403; otherwise a filename that is not a key of
  \<^verbatim>\<open>AVAILABLE_DOCUMENTS\<close> is answered 404; these three answers are the same for every
  state of the disk. Otherwise a file missing on disk is answered 404; otherwise a path
  that is not a regular file is answered 403; otherwise a resolved path outside the
  policies directory is answered 403; otherwise the document is served.
\<close>

theorem get_document_checks:
  "(path_traversal f \<longleftrightarrow>
      (\<exists>pre post. f = pre @ ''..'' @ post) \<or> CHR ''/'' \<in> set f \<or> CHR 0x5C \<in> set f)
   \<and> (path_traversal f \<longrightarrow> (\<forall>fs. get_document fs f = Inl (HTTPException 400)))
   \<and> (\<not> path_traversal f \<and> lower (Path_suffix f) \<notin> set ALLOWED_EXTENSIONS \<longrightarrow>
        (\<forall>fs. get_document fs f = Inl (HTTPException 403)))
   \<and> (\<not> path_traversal f \<and> lower (Path_suffix f) \<in> set ALLOWED_EXTENSIONS
        \<and> map_of AVAILABLE_DOCUMENTS f = None \<longrightarrow>
        (\<forall>fs. get_document fs f = Inl (HTTPException 404)))
   \<and> (\<not> path_traversal f \<and> lower (Path_suffix f) \<in> set ALLOWED_EXTENSIONS
        \<and> map_of AVAILABLE_DOCUMENTS f \<noteq> None \<longrightarrow>
        (kind (fs f) = Missing \<longrightarrow> get_document fs f = Inl (HTTPException 404))
        \<and> (kind (fs f) = NotRegular \<longrightarrow> get_document fs f = Inl (HTTPException 403))
        \<and> (kind (fs f) = RegularFile \<and> \<not> resolves_inside (fs f) \<longrightarrow>
             get_document fs f = Inl (HTTPException 403))
        \<and> (kind (fs f) = RegularFile \<and> resolves_inside (fs f) \<longrightarrow>
             (\<exists>media_type. get_document fs f = Inr media_type)))"
proof -
  have "path_traversal f \<longleftrightarrow>
      (\<exists>pre post. f = pre @ ''..'' @ post) \<or> CHR ''/'' \<in> set f \<or> CHR 0x5C \<in> set f"
    by (rule path_traversal_iff)
  moreover have "path_traversal f \<longrightarrow> (\<forall>fs. get_document fs f = Inl (HTTPException 400))"
    by (simp add: get_document_def)
  moreover have "\<not> path_traversal f \<and> lower (Path_suffix f) \<notin> set ALLOWED_EXTENSIONS \<longrightarrow>
        (\<forall>fs. get_document fs f = Inl (HTTPException 403))"
    by (simp add: get_document_def Let_def)
  moreover have "\<not> path_traversal f \<and> lower (Path_suffix f) \<in> set ALLOWED_EXTENSIONS
        \<and> map_of AVAILABLE_DOCUMENTS f = None \<longrightarrow>
        (\<forall>fs. get_document fs f = Inl (HTTPException 404))"
    by (simp add: get_document_def Let_def)
  moreover have "\<not> path_traversal f \<and> lower (Path_suffix f) \<in> set ALLOWED_EXTENSIONS
        \<and> map_of AVAILABLE_DOCUMENTS f \<noteq> None \<longrightarrow>
        (kind (fs f) = Missing \<longrightarrow> get_document fs f = Inl (HTTPException 404))
        \<and> (kind (fs f) = NotRegular \<longrightarrow> get_document fs f = Inl (HTTPException 403))
        \<and> (kind (fs f) = RegularFile \<and> \<not> resolves_inside (fs f) \<longrightarrow>
             get_document fs f = Inl (HTTPException 403))
        \<and> (kind (fs f) = RegularFile \<and> resolves_inside (fs f) \<longrightarrow>
             (\<exists>media_type. get_document fs f = Inr media_type))"
    by (simp add: get_document_def Let_def)
  ultimately show ?thesis by blast
qed

text \<open>
  One request for each outcome.
\<close>

theorem get_document_checks_witness:
  "path_traversal ''../../etc/passwd''
   \<and> get_document plain_files ''../../etc/passwd'' = Inl (HTTPException 400)
   \<and> \<not> path_traversal ''report.exe''
   \<and> lower (Path_suffix ''report.exe'') \<notin> set ALLOWED_EXTENSIONS
   \<and> get_document plain_files ''report.exe'' = Inl (HTTPException 403)
   \<and> \<not> path_traversal ''notes.MD''
   \<and> lower (Path_suffix ''notes.MD'') \<in> set ALLOWED_EXTENSIONS
   \<and> map_of AVAILABLE_DOCUMENTS ''notes.MD'' = None
   \<and> get_document plain_files ''notes.MD'' = Inl (HTTPException 404)
   \<and> \<not> path_traversal ''employee-handbook.md''
   \<and> lower (Path_suffix ''employee-handbook.md'') \<in> set ALLOWED_EXTENSIONS
   \<and> map_of AVAILABLE_DOCUMENTS ''employee-handbook.md'' \<noteq> None
   \<and> kind (no_files ''employee-handbook.md'') = Missing
   \<and> get_document no_files ''employee-handbook.md'' = Inl (HTTPException 404)
   \<and> kind (directories ''employee-handbook.md'') = NotRegular
   \<and> get_document directories ''employee-handbook.md'' = Inl (HTTPException 403)
   \<and> kind (links_to_outside_files ''employee-handbook.md'') = RegularFile
   \<and> \<not> resolves_inside (links_to_outside_files ''employee-handbook.md'')
   \<and> get_document links_to_outside_files ''employee-handbook.md'' = Inl (HTTPException 403)
   \<and> kind (plain_files ''employee-handbook.md'') = RegularFile
   \<and> resolves_inside (plain_files ''employee-handbook.md'')
   \<and> (\<exists>media_type. get_document plain_files ''employee-handbook.md'' = Inr media_type)"
  using get_document_checks [of "''../../etc/passwd''" plain_files]
    get_document_checks [of "''report.exe''" plain_files]
    get_document_checks [of "''notes.MD''" plain_files]
    get_document_checks [of "''employee-handbook.md''" no_files]
    get_document_checks [of "''employee-handbook.md''" directories]
    get_document_checks [of "''employee-handbook.md''" links_to_outside_files]
    get_document_checks [of "''employee-handbook.md''" plain_files]
    sample_names
  by (simp add: no_files_def directories_def links_to_outside_files_def plain_files_def)

text \<open>
  Claim C7 as stated answers 403 whenever the resolved path of an allow-listed name
  leaves the policies directory. For a symbolic link to a missing target outside the
  directory the handler stops one check earlier, at the missing file, and answers 404.
\<close>

theorem get_document_missing_before_escape_counterexample:
  "\<not> path_traversal ''employee-handbook.md''
   \<and> lower (Path_suffix ''employee-handbook.md'') \<in> set ALLOWED_EXTENSIONS
   \<and> map_of AVAILABLE_DOCUMENTS ''employee-handbook.md'' \<noteq> None
   \<and> \<not> resolves_inside (dangling_links_to_outside ''employee-handbook.md'')
   \<and> get_document dangling_links_to_outside ''employee-handbook.md'' = Inl (HTTPException 404)"
  by code_simp

text \<open>
  Claim C8. \<^verbatim>\<open>GET /docs/{filename}/info\<close> applies the same checks as
  \<^verbatim>\<open>GET /docs/{filename}\<close>, with the same outcomes. The handler has the separator check,
  the allow-list check and the missing-file check (\<open>get_document_info_checks\<close>) but neither
  the extension check nor the check of the resolved path: \<^verbatim>\<open>report.exe\<close> is answered 404
  where the document handler answers 403, and an allow-listed name that is a link to a file
  outside the policies directory gets its metadata where the document handler answers 403.
\<close>

theorem get_document_info_skips_checks:
  "get_document plain_files ''report.exe'' = Inl (HTTPException 403)
   \<and> get_document_info plain_files ''report.exe'' = Inl (HTTPException 404)
   \<and> get_document links_to_outside_files ''employee-handbook.md'' = Inl (HTTPException 403)
   \<and> get_document_info links_to_outside_files ''employee-handbook.md'' =
       Inr \<lparr>description = ''Employee Handbook - Company policies and procedures'',
            size_bytes = 2048, extension = ''.md'',
            download_url = ''/api/docs/employee-handbook.md''\<rparr>"
  by code_simp

end
